theory Spec2Isabelle
  imports Main "HOL-Library.AList"
begin

section \<open>The relay server of Backend.py\<close>

text \<open>
  Backend.py keeps three module-level dictionaries and serves every WebSocket connection with
  one coroutine, \<open>handle_client\<close>. The model below is a shallow embedding of that file.

  \<^item> A Python \<open>dict\<close> with string keys is an association list in insertion order:
    \<open>d[k] = v\<close> is \<open>AList.update\<close> (overwrite in place, else append), \<open>del d[k]\<close> is
    \<open>AList.delete\<close>, \<open>k in d\<close> is \<open>map_of d k \<noteq> None\<close>, \<open>d.values()\<close> is \<open>map snd d\<close>.
  \<^item> A \<open>WebSocketServerProtocol\<close> object is a handle into a store of sockets, so that the
    handler's \<open>ws\<close> and the object found in \<open>client_connections\<close> can be compared by identity
    and \<open>close()\<close> on a partner is seen by everybody holding that object.
  \<^item> Every \<open>await ws.send(...)\<close> can raise \<open>ConnectionClosed\<close>; every subscript \<open>d[k]\<close> can
    raise \<open>KeyError\<close>. Functions that can raise return an \<open>outcome\<close> carrying the state at
    the point where they returned or raised.
  \<^item> The four wire fields are strings, as the wire schema says; a decoded JSON object may lack
    any of them.
  \<^item> Each message handler, each cleanup and each heartbeat tick is taken as one atomic step:
    the interleaving of several coroutines at the \<open>await\<close> inside one step is not modelled.
\<close>

subsection \<open>Wire messages, sockets, exceptions\<close>

record msg =
  mtype :: string
  clientId :: string
  targetId :: string
  message :: string

text \<open>What \<open>json.loads\<close> makes of a received frame: not JSON at all, or an object in which each
  of the four required keys is present or absent.\<close>

record data =
  j_type :: "string option"
  j_clientId :: "string option"
  j_targetId :: "string option"
  j_message :: "string option"

datatype frame = NotJson | Json data

text \<open>The connection behind a \<open>ws\<close> object. \<open>Open\<close>: \<open>ws.open\<close> is true and \<open>send\<close> delivers.
  \<open>Broken\<close>: the transport has failed but the connection has not been marked closed yet, so
  \<open>ws.open\<close> still reads true and \<open>send\<close> raises \<open>ConnectionClosed\<close>. \<open>Closed\<close>: \<open>ws.open\<close> is
  false and \<open>send\<close> raises \<open>ConnectionClosed\<close>.\<close>

datatype conn_state = Open | Broken | Closed

record socket =
  sock_state :: conn_state
  sock_sent :: "msg list"

type_synonym wsid = nat

record task =
  task_done :: bool
  task_cancelled :: bool

type_synonym taskid = nat

datatype exn = ConnectionClosed | KeyError | IndexError

datatype 'a outcome = Normal 'a | Raise exn 'a

fun state_of :: "'a outcome \<Rightarrow> 'a" where
  "state_of (Normal s) = s"
| "state_of (Raise e s) = s"

fun raised :: "'a outcome \<Rightarrow> exn option" where
  "raised (Normal s) = None"
| "raised (Raise e s) = Some e"

subsection \<open>The server's state\<close>

record world =
  client_connections :: "(string \<times> wsid) list"
  binding_relations :: "(string \<times> string) list"
  client_timers :: "(string \<times> taskid) list"
  sockets :: "wsid \<Rightarrow> socket"
  tasks :: "taskid \<Rightarrow> task"

definition ws_open :: "wsid \<Rightarrow> world \<Rightarrow> bool" where
  "ws_open ws w = (sock_state (sockets w ws) \<noteq> Closed)"

text \<open>Handing a frame to the peer of \<open>ws\<close>.\<close>

definition deliver :: "wsid \<Rightarrow> msg \<Rightarrow> world \<Rightarrow> world" where
  "deliver ws m w =
     w\<lparr>sockets := (sockets w)(ws := (sockets w ws)\<lparr>sock_sent := sock_sent (sockets w ws) @ [m]\<rparr>)\<rparr>"

definition ws_send :: "wsid \<Rightarrow> msg \<Rightarrow> world \<Rightarrow> world outcome" where
  "ws_send ws m w =
     (if sock_state (sockets w ws) = Open then Normal (deliver ws m w)
      else Raise ConnectionClosed w)"

definition ws_close :: "wsid \<Rightarrow> world \<Rightarrow> world" where
  "ws_close ws w = w\<lparr>sockets := (sockets w)(ws := (sockets w ws)\<lparr>sock_state := Closed\<rparr>)\<rparr>"

text \<open>The frames a connection has been sent so far.\<close>

definition sent_to :: "wsid \<Rightarrow> world \<Rightarrow> msg list" where
  "sent_to ws w = sock_sent (sockets w ws)"

subsection \<open>\<open>validate_relation\<close> (lines 51-62)\<close>

definition validate_relation :: "string \<Rightarrow> string \<Rightarrow> wsid \<Rightarrow> world \<Rightarrow> bool \<times> string" where
  "validate_relation client_id target_id ws w =
     (case map_of (client_connections w) client_id of
        None \<Rightarrow> (False, ''404'')
      | Some c \<Rightarrow>
         (case map_of (client_connections w) target_id of
            None \<Rightarrow> (False, ''404'')
          | Some t \<Rightarrow>
             if c \<noteq> ws \<and> t \<noteq> ws then (False, ''404'')
             else if map_of (binding_relations w) client_id \<noteq> Some target_id
             then (False, ''402'')
             else (True, ''200'')))"

subsection \<open>\<open>cancel_timer\<close> (lines 65-73)\<close>

definition cancel_timer :: "string \<Rightarrow> string \<Rightarrow> world \<Rightarrow> world" where
  "cancel_timer client_id channel w =
     (let timer_key = client_id @ ''-'' @ channel in
      case map_of (client_timers w) timer_key of
        None \<Rightarrow> w
      | Some t \<Rightarrow>
         (let w1 = (if \<not> task_done (tasks w t)
                    then w\<lparr>tasks := (tasks w)(t := (tasks w t)\<lparr>task_cancelled := True\<rparr>)\<rparr>
                    else w)
          in w1\<lparr>client_timers := AList.delete timer_key (client_timers w1)\<rparr>))"

subsection \<open>\<open>handle_client\<close>: the message loop (lines 110-221)\<close>

text \<open>Lines 112-122: the identifier \<open>uuid4\<close> produced is a parameter. The greeting is sent
  before the \<open>try\<close>, so if it raises no cleanup follows.\<close>

definition accept_client :: "string \<Rightarrow> wsid \<Rightarrow> world \<Rightarrow> world outcome" where
  "accept_client client_id ws w =
     ws_send ws \<lparr>mtype = ''bind'', clientId = client_id, targetId = '''', message = ''targetId''\<rparr>
       (w\<lparr>client_connections := AList.update client_id ws (client_connections w)\<rparr>)"

text \<open>Lines 146-182: a \<open>bind\<close> request.\<close>

definition handle_bind :: "wsid \<Rightarrow> string \<Rightarrow> string \<Rightarrow> world \<Rightarrow> world outcome" where
  "handle_bind ws client_id target_id w =
     (if map_of (client_connections w) target_id = None
      then ws_send ws \<lparr>mtype = ''bind'', clientId = client_id, targetId = target_id,
                        message = ''401''\<rparr> w
      else if map_of (binding_relations w) client_id \<noteq> None
              \<or> target_id \<in> set (map snd (binding_relations w))
      then ws_send ws \<lparr>mtype = ''bind'', clientId = client_id, targetId = target_id,
                        message = ''400''\<rparr> w
      else
        (let w1 = w\<lparr>binding_relations :=
                      AList.update target_id client_id
                        (AList.update client_id target_id (binding_relations w))\<rparr>;
             bind_success = \<lparr>mtype = ''bind'', clientId = client_id, targetId = target_id,
                             message = ''200''\<rparr>
         in case map_of (client_connections w1) client_id of
              None \<Rightarrow> Raise KeyError w1
            | Some c \<Rightarrow>
               (case ws_send c bind_success w1 of
                  Raise e w2 \<Rightarrow> Raise e w2
                | Normal w2 \<Rightarrow>
                   (case map_of (client_connections w2) target_id of
                      None \<Rightarrow> Raise KeyError w2
                    | Some t \<Rightarrow> ws_send t bind_success w2))))"

text \<open>Lines 184-203: any other kind is validated and forwarded.\<close>

definition handle_forward :: "wsid \<Rightarrow> msg \<Rightarrow> world \<Rightarrow> world outcome" where
  "handle_forward ws m w =
     (case validate_relation (clientId m) (targetId m) ws w of
        (False, err_code) \<Rightarrow>
          ws_send ws \<lparr>mtype = ''error'', clientId = clientId m, targetId = targetId m,
                      message = err_code\<rparr> w
      | (True, err_code) \<Rightarrow>
         (case map_of (client_connections w) (targetId m) of
            None \<Rightarrow> Raise KeyError w
          | Some target_ws \<Rightarrow>
              ws_send target_ws \<lparr>mtype = mtype m, clientId = clientId m, targetId = targetId m,
                                 message = message m\<rparr> w))"

definition dispatch :: "wsid \<Rightarrow> msg \<Rightarrow> world \<Rightarrow> world outcome" where
  "dispatch ws m w =
     (if mtype m = ''bind'' then handle_bind ws (clientId m) (targetId m) w
      else handle_forward ws m w)"

text \<open>Lines 214-221, \<open>except Exception\<close>: report 500 to the sender. If that send raises as
  well, the exception leaves the read loop.\<close>

definition on_exception :: "wsid \<Rightarrow> data \<Rightarrow> world \<Rightarrow> world outcome" where
  "on_exception ws d w =
     ws_send ws \<lparr>mtype = ''error'',
                 clientId = (case j_clientId d of None \<Rightarrow> '''' | Some c \<Rightarrow> c),
                 targetId = (case j_targetId d of None \<Rightarrow> '''' | Some t \<Rightarrow> t),
                 message = ''500''\<rparr> w"

definition error_403 :: msg where
  "error_403 = \<lparr>mtype = ''error'', clientId = '''', targetId = '''', message = ''403''\<rparr>"

text \<open>One iteration of \<open>async for message in ws\<close> (lines 126-221). The local variable
  \<open>client_id\<close> is threaded through: line 142 overwrites it with the \<open>clientId\<close> field of every
  message that has the four required fields. \<open>Normal\<close> means the loop goes on, \<open>Raise\<close> that an
  exception leaves the loop.\<close>

definition handle_message :: "wsid \<Rightarrow> string \<Rightarrow> frame \<Rightarrow> world \<Rightarrow> (string \<times> world) outcome" where
  "handle_message ws client_id fr w =
     (case fr of
        NotJson \<Rightarrow>
         (case ws_send ws error_403 w of
            Normal w1 \<Rightarrow> Normal (client_id, w1)
          | Raise e w1 \<Rightarrow> Raise e (client_id, w1))
      | Json d \<Rightarrow>
         (case (j_type d, j_clientId d, j_targetId d, j_message d) of
            (Some ty, Some c, Some t, Some m) \<Rightarrow>
             (case dispatch ws \<lparr>mtype = ty, clientId = c, targetId = t, message = m\<rparr> w of
                Normal w1 \<Rightarrow> Normal (c, w1)
              | Raise e w1 \<Rightarrow>
                 (case on_exception ws d w1 of
                    Normal w2 \<Rightarrow> Normal (c, w2)
                  | Raise e2 w2 \<Rightarrow> Raise e2 (c, w2)))
          | _ \<Rightarrow>
             (case ws_send ws error_403 w of
                Normal w1 \<Rightarrow> Normal (client_id, w1)
              | Raise e w1 \<Rightarrow>
                 (case on_exception ws d w1 of
                    Normal w2 \<Rightarrow> Normal (client_id, w2)
                  | Raise e2 w2 \<Rightarrow> Raise e2 (client_id, w2)))))"

subsection \<open>\<open>handle_client\<close>: disconnect cleanup (lines 225-254)\<close>

text \<open>Python's \<open>key.startswith(p)\<close> and \<open>key.split(sep)\<close> for a one-character separator.\<close>

fun startswith :: "string \<Rightarrow> string \<Rightarrow> bool" where
  "startswith s [] = True"
| "startswith [] (c # p) = False"
| "startswith (x # s) (c # p) = (x = c \<and> startswith s p)"

fun split :: "string \<Rightarrow> char \<Rightarrow> string list" where
  "split [] sep = [[]]"
| "split (x # s) sep =
     (if x = sep then [] # split s sep
      else (case split s sep of [] \<Rightarrow> [[x]] | p # ps \<Rightarrow> (x # p) # ps))"

text \<open>Step 2 (lines 232-247): tell the partner, close it, drop both directions.\<close>

definition teardown_binding :: "string \<Rightarrow> world \<Rightarrow> world outcome" where
  "teardown_binding client_id w =
     (case map_of (binding_relations w) client_id of
        None \<Rightarrow> Normal w
      | Some target_id \<Rightarrow>
         (let notified =
            (case map_of (client_connections w) target_id of
               None \<Rightarrow> Normal w
             | Some partner \<Rightarrow>
                 if ws_open partner w
                 then (case ws_send partner \<lparr>mtype = ''break'', clientId = client_id,
                                              targetId = target_id, message = ''209''\<rparr> w of
                         Raise e w1 \<Rightarrow> Raise e w1
                       | Normal w1 \<Rightarrow> Normal (ws_close partner w1))
                 else Normal w)
          in case notified of
               Raise e w1 \<Rightarrow> Raise e w1
             | Normal w1 \<Rightarrow>
                 Normal (w1\<lparr>binding_relations :=
                             AList.delete target_id
                               (AList.delete client_id (binding_relations w1))\<rparr>)))"

text \<open>Step 3 (lines 250-252), over the snapshot \<open>list(client_timers.keys())\<close>.\<close>

fun cancel_owned :: "string \<Rightarrow> string list \<Rightarrow> world \<Rightarrow> world outcome" where
  "cancel_owned client_id [] w = Normal w"
| "cancel_owned client_id (key # keys) w =
     (if startswith key (client_id @ ''-'')
      then (case split key (CHR ''-'') of
              p0 # channel # ps \<Rightarrow> cancel_owned client_id keys (cancel_timer client_id channel w)
            | _ \<Rightarrow> Raise IndexError w)
      else cancel_owned client_id keys w)"

text \<open>The \<open>finally\<close> block: the three steps are plain consecutive statements, so an exception
  in one of them ends the block.\<close>

definition cleanup :: "string \<Rightarrow> world \<Rightarrow> world outcome" where
  "cleanup client_id w =
     (let w1 = w\<lparr>client_connections := AList.delete client_id (client_connections w)\<rparr>
      in case teardown_binding client_id w1 of
           Raise e w2 \<Rightarrow> Raise e w2
         | Normal w2 \<Rightarrow> cancel_owned client_id (map fst (client_timers w2)) w2)"

subsection \<open>\<open>send_heartbeat\<close> (lines 32-48)\<close>

text \<open>One pass of the \<open>while True\<close> body, up to the sleep. The loop itself never returns; its
  passes are the \<open>Tick\<close> events of the transition system below. A send that raises is not
  caught and ends the coroutine.\<close>

fun heartbeat_each :: "(string \<times> wsid) list \<Rightarrow> world \<Rightarrow> world outcome" where
  "heartbeat_each [] w = Normal w"
| "heartbeat_each ((client_id, ws) # rest) w =
     (if ws_open ws w
      then (case ws_send ws \<lparr>mtype = ''heartbeat'', clientId = client_id,
                              targetId = (case map_of (binding_relations w) client_id of
                                            None \<Rightarrow> [] | Some t \<Rightarrow> t),
                              message = ''200''\<rparr> w of
              Raise e w1 \<Rightarrow> Raise e w1
            | Normal w1 \<Rightarrow> heartbeat_each rest w1)
      else heartbeat_each rest w)"

definition send_heartbeat :: "world \<Rightarrow> world outcome" where
  "send_heartbeat w =
     (if client_connections w \<noteq> [] then heartbeat_each (client_connections w) w else Normal w)"

subsection \<open>\<open>delay_send_msg\<close> (lines 76-107)\<close>

text \<open>The task sleeps between sends, so the target can change while it runs: \<open>target_ws i\<close> is
  the state of the target connection when the task looks at it for the \<open>i\<close>-th time (0 for
  the immediate first send, \<open>i\<close> after the \<open>i\<close>-th sleep). The result is the exception that
  ended the task, if any, what the task did, in order, and the timer table it leaves.
  Nothing in Backend.py starts this task or inserts into \<open>client_timers\<close>, so it is modelled
  on its own, with the timer table as a parameter.\<close>

datatype 't action = Send msg | Sleep 't

function send_remaining ::
  "(nat \<Rightarrow> conn_state) \<Rightarrow> msg \<Rightarrow> int \<Rightarrow> 't \<Rightarrow> nat \<Rightarrow> 't action list
     \<Rightarrow> exn option \<times> 't action list" where
  "send_remaining target_ws send_data total_sends time_space i done =
     (if total_sends > 0
      then (case target_ws i of
              Closed \<Rightarrow> (None, done @ [Sleep time_space])
            | Broken \<Rightarrow> (Some ConnectionClosed, done @ [Sleep time_space])
            | Open \<Rightarrow> send_remaining target_ws send_data (total_sends - 1) time_space (Suc i)
                        (done @ [Sleep time_space, Send send_data]))
      else (None, done))"
  by pat_completeness auto
termination
  by (relation "measure (\<lambda>(t, d, n, ts, i, a). nat n)") auto

definition delay_send_msg ::
  "string \<Rightarrow> (nat \<Rightarrow> conn_state) \<Rightarrow> msg \<Rightarrow> int \<Rightarrow> 't \<Rightarrow> string \<Rightarrow> (string \<times> taskid) list
     \<Rightarrow> (exn option \<times> 't action list) \<times> (string \<times> taskid) list" where
  "delay_send_msg client_id target_ws send_data total_sends time_space channel timers =
     (let timer_key = client_id @ ''-'' @ channel;
          r = (case target_ws 0 of
                 Closed \<Rightarrow> send_remaining target_ws send_data (total_sends - 1) time_space 1 []
               | Broken \<Rightarrow> (Some ConnectionClosed, [])
               | Open \<Rightarrow> send_remaining target_ws send_data (total_sends - 1) time_space 1
                           [Send send_data])
      in (r, AList.delete timer_key timers))"

definition sends :: "'t action list \<Rightarrow> msg list" where
  "sends acts = concat (map (\<lambda>a. case a of Send m \<Rightarrow> [m] | Sleep t \<Rightarrow> []) acts)"

subsection \<open>The server as a transition system\<close>

text \<open>The server runs one \<open>handle_client\<close> coroutine per connection; \<open>handlers\<close> holds, for
  each running one, its \<open>ws\<close> and the current value of its local \<open>client_id\<close>. The read loop
  \<open>async for message in ws\<close> of a coroutine is the sequence of \<open>Receive\<close> events of its \<open>ws\<close>;
  it ends when the connection closes (\<open>Disconnect\<close>) or when an exception leaves the loop
  body, and the \<open>finally\<close> block follows in both cases.\<close>

record system =
  globals :: world
  handlers :: "(wsid \<times> string) list"
  heartbeat_running :: bool

datatype event =
    Accept string wsid
  | Receive wsid frame
  | Disconnect wsid
  | Tick
  | Transport wsid conn_state

definition init :: system where
  "init = \<lparr>globals = \<lparr>client_connections = [], binding_relations = [], client_timers = [],
                       sockets = (\<lambda>ws. \<lparr>sock_state = Closed, sock_sent = []\<rparr>),
                       tasks = (\<lambda>t. \<lparr>task_done = False, task_cancelled = False\<rparr>)\<rparr>,
           handlers = [], heartbeat_running = True\<rparr>"

definition set_state :: "wsid \<Rightarrow> conn_state \<Rightarrow> world \<Rightarrow> world" where
  "set_state ws st w = w\<lparr>sockets := (sockets w)(ws := (sockets w ws)\<lparr>sock_state := st\<rparr>)\<rparr>"

text \<open>\<open>Accept c ws\<close>: a new connection arrives on a fresh open socket and \<open>uuid4\<close> yields \<open>c\<close>.
  \<open>Receive ws fr\<close>: the handler of \<open>ws\<close> reads \<open>fr\<close>; if an exception leaves the loop, cleanup
  follows at once. \<open>Disconnect ws\<close>: the connection is closed and its handler runs cleanup.
  \<open>Tick\<close>: the heartbeat coroutine wakes up and makes one pass; a pass that raises ends the
  coroutine, and later ticks do nothing. \<open>Transport ws st\<close>: the network changes the state of
  a connection.\<close>

definition step :: "event \<Rightarrow> system \<Rightarrow> system" where
  "step ev s =
     (case ev of
        Accept c ws \<Rightarrow>
         (case accept_client c ws
                 ((globals s)\<lparr>sockets := (sockets (globals s))
                                 (ws := \<lparr>sock_state = Open, sock_sent = []\<rparr>)\<rparr>) of
            Normal w1 \<Rightarrow> s\<lparr>globals := w1, handlers := AList.update ws c (handlers s)\<rparr>
          | Raise e w1 \<Rightarrow> s\<lparr>globals := w1\<rparr>)
      | Receive ws fr \<Rightarrow>
         (case map_of (handlers s) ws of
            None \<Rightarrow> s
          | Some client_id \<Rightarrow>
             (case handle_message ws client_id fr (globals s) of
                Normal (c, w1) \<Rightarrow> s\<lparr>globals := w1, handlers := AList.update ws c (handlers s)\<rparr>
              | Raise e (c, w1) \<Rightarrow>
                  s\<lparr>globals := state_of (cleanup c w1),
                    handlers := AList.delete ws (handlers s)\<rparr>))
      | Disconnect ws \<Rightarrow>
         (case map_of (handlers s) ws of
            None \<Rightarrow> s
          | Some client_id \<Rightarrow>
              s\<lparr>globals := state_of (cleanup client_id (set_state ws Closed (globals s))),
                handlers := AList.delete ws (handlers s)\<rparr>)
      | Tick \<Rightarrow>
         (if heartbeat_running s
          then (case send_heartbeat (globals s) of
                  Normal w1 \<Rightarrow> s\<lparr>globals := w1\<rparr>
                | Raise e w1 \<Rightarrow> s\<lparr>globals := w1, heartbeat_running := False\<rparr>)
          else s)
      | Transport ws st \<Rightarrow> s\<lparr>globals := set_state ws st (globals s)\<rparr>)"

definition run :: "event list \<Rightarrow> system" where
  "run evs = foldl (\<lambda>s ev. step ev s) init evs"

subsection \<open>Example states\<close>

text \<open>A decoded frame that has all four required fields.\<close>

definition request :: "string \<Rightarrow> string \<Rightarrow> string \<Rightarrow> string \<Rightarrow> frame" where
  "request ty c t m =
     Json \<lparr>j_type = Some ty, j_clientId = Some c, j_targetId = Some t, j_message = Some m\<rparr>"

text \<open>Two and three connected clients; two clients after the second has sent the bind request
  of the pairing protocol, which names the first as \<open>clientId\<close> and itself as \<open>targetId\<close>.\<close>

definition two_clients :: world where
  "two_clients = globals (run [Accept ''A'' 10, Accept ''B'' 20])"

definition three_clients :: world where
  "three_clients = globals (run [Accept ''A'' 10, Accept ''B'' 20, Accept ''C'' 30])"

definition paired :: world where
  "paired = globals (run [Accept ''A'' 10, Accept ''B'' 20,
                          Receive 20 (request ''bind'' ''A'' ''B'' ''DGLAB'')])"

subsection \<open>The binding invariant\<close>


subsection \<open>Notions used in the statements\<close>



text \<open>The heartbeat frame of lines 34-46 for one registry entry.\<close>

definition heartbeat_msg :: "string \<Rightarrow> world \<Rightarrow> msg" where
  "heartbeat_msg client_id w =
     \<lparr>mtype = ''heartbeat'', clientId = client_id,
      targetId = (case map_of (binding_relations w) client_id of None \<Rightarrow> [] | Some t \<Rightarrow> t),
      message = ''200''\<rparr>"

text \<open>What a delivery task with \<open>total_sends = n\<close> does when the target is open at the first \<open>k\<close>
  looks and closed afterwards.\<close>

definition expected_actions :: "msg \<Rightarrow> 't \<Rightarrow> int \<Rightarrow> nat \<Rightarrow> 't action list" where
  "expected_actions d ts n k =
     (if k = 0 then (if 1 < n then [Sleep ts] else [])
      else Send d # concat (replicate (k - 1) [Sleep ts, Send d])
           @ (if int k < n then [Sleep ts] else []))"


definition target_side_leaves :: system where
  "target_side_leaves = run [Accept ''A'' 10, Accept ''B'' 20,
                             Receive 20 (request ''bind'' ''A'' ''B'' ''DGLAB''), Disconnect 20]"



definition pulse :: msg where
  "pulse = \<lparr>mtype = ''msg'', clientId = ''A'', targetId = ''B'', message = ''pulse-A:[10]''\<rparr>"

section \<open>Properties\<close>

subsection \<open>Sending\<close>

lemma deliver_fields [simp]:
  "client_connections (deliver ws m w) = client_connections w"
  "binding_relations (deliver ws m w) = binding_relations w"
  "client_timers (deliver ws m w) = client_timers w"
  "tasks (deliver ws m w) = tasks w"
  by (simp_all add: deliver_def)

lemma deliver_state [simp]:
  "sock_state (sockets (deliver ws m w) h) = sock_state (sockets w h)"
  by (simp add: deliver_def)

lemma sent_to_deliver [simp]:
  "sent_to h (deliver ws m w) = (if h = ws then sent_to ws w @ [m] else sent_to h w)"
  by (simp add: deliver_def sent_to_def)

lemma ws_send_Open [simp]:
  "sock_state (sockets w ws) = Open \<Longrightarrow> ws_send ws m w = Normal (deliver ws m w)"
  by (simp add: ws_send_def)

lemma ws_send_not_Open [simp]:
  "sock_state (sockets w ws) \<noteq> Open \<Longrightarrow> ws_send ws m w = Raise ConnectionClosed w"
  by (simp add: ws_send_def)

lemmas run_simps = run_def step_def init_def accept_client_def request_def handle_message_def
  dispatch_def handle_bind_def handle_forward_def validate_relation_def on_exception_def
  cleanup_def teardown_binding_def set_state_def ws_open_def ws_close_def Let_def

lemma two_clients_fields:
  "client_connections two_clients = [(''A'', 10), (''B'', 20)]"
  "binding_relations two_clients = []"
  "sock_state (sockets two_clients 10) = Open"
  "sock_state (sockets two_clients 20) = Open"
  by (simp_all add: two_clients_def run_simps)

lemma three_clients_fields:
  "client_connections three_clients = [(''A'', 10), (''B'', 20), (''C'', 30)]"
  "binding_relations three_clients = []"
  "sock_state (sockets three_clients 30) = Open"
  by (simp_all add: three_clients_def run_simps)

lemma paired_fields:
  "client_connections paired = [(''A'', 10), (''B'', 20)]"
  "binding_relations paired = [(''A'', ''B''), (''B'', ''A'')]"
  "sock_state (sockets paired 10) = Open"
  "sock_state (sockets paired 20) = Open"
  by (simp_all add: paired_def run_simps)

subsection \<open>Bind requests\<close>

text \<open>A bind request whose target is not registered is answered with \<open>bind\<close>/401 and changes
  nothing else.\<close>

lemma bind_unknown_target:
  assumes "sock_state (sockets w ws) = Open"
    and "map_of (client_connections w) t = None"
  shows "handle_message ws client_id (request ''bind'' c t m) w =
           Normal (c, deliver ws \<lparr>mtype = ''bind'', clientId = c, targetId = t,
                                   message = ''401''\<rparr> w)"
  using assms
  by (simp add: request_def handle_message_def dispatch_def handle_bind_def)

text \<open>
  C1. The claim: a bind request whose origin or target is not a registered connection fails and
  leaves the binding map unchanged, and no binding entry with an unregistered origin is ever
  created. The code checks only the target (line 149). With clients \<open>A\<close> and \<open>B\<close> connected
  and unbound, the request \<open>bind\<close> with \<open>clientId = X\<close>, \<open>targetId = B\<close> from \<open>A\<close>'s connection
  passes both checks, lines 170-171 write \<open>X \<mapsto> B\<close> and \<open>B \<mapsto> X\<close>, and only then
  \<open>client_connections[client_id]\<close> on line 179 raises \<open>KeyError\<close>, which is reported as
  \<open>error\<close>/500. The binding with the unregistered origin \<open>X\<close> stays.
\<close>

theorem bind_unregistered_origin_is_recorded:
  "map_of (client_connections two_clients) ''X'' = None
   \<and> handle_message 10 ''A'' (request ''bind'' ''X'' ''B'' ''DGLAB'') two_clients =
       Normal (''X'', deliver 10 \<lparr>mtype = ''error'', clientId = ''X'', targetId = ''B'',
                                   message = ''500''\<rparr>
                        (two_clients\<lparr>binding_relations := [(''X'', ''B''), (''B'', ''X'')]\<rparr>))"
  by (simp add: two_clients_fields request_def handle_message_def dispatch_def handle_bind_def
        on_exception_def)

text \<open>
  C8 as stated: every bind request whose origin already has a partner, or whose target is
  already somebody's partner, is answered with \<open>bind\<close>/400. The target's registration is
  checked first (line 149), so with \<open>A\<close> bound to \<open>B\<close>, a request from \<open>A\<close> to bind to the
  unregistered \<open>Z\<close> is answered with 401.
\<close>

theorem rebind_to_unknown_target_gets_401:
  "map_of (binding_relations paired) ''A'' = Some ''B''
   \<and> handle_message 10 ''A'' (request ''bind'' ''A'' ''Z'' ''DGLAB'') paired =
       Normal (''A'', deliver 10 \<lparr>mtype = ''bind'', clientId = ''A'', targetId = ''Z'',
                                   message = ''401''\<rparr> paired)"
  by (simp add: paired_fields request_def handle_message_def dispatch_def handle_bind_def)

text \<open>
  C8, amended: for every bind request whose target is a registered connection and whose origin
  already has a partner, or whose target is already somebody's partner, the sender (whose
  connection accepts the reply) receives \<open>bind\<close>/400, and the binding map is left as it was.
\<close>

theorem rebind_rejected:
  assumes "sock_state (sockets w ws) = Open"
    and "map_of (client_connections w) t \<noteq> None"
    and "map_of (binding_relations w) c \<noteq> None \<or> t \<in> snd ` set (binding_relations w)"
  shows "handle_message ws client_id (request ''bind'' c t m) w =
           Normal (c, deliver ws \<lparr>mtype = ''bind'', clientId = c, targetId = t,
                                   message = ''400''\<rparr> w)
       \<and> binding_relations (snd (state_of (handle_message ws client_id
                                              (request ''bind'' c t m) w)))
           = binding_relations w"
  using assms
  by (auto simp add: request_def handle_message_def dispatch_def handle_bind_def)

theorem rebind_rejected_witness:
  "sock_state (sockets paired 10) = Open
   \<and> map_of (client_connections paired) ''B'' \<noteq> None
   \<and> map_of (binding_relations paired) ''A'' = Some ''B''
   \<and> handle_message 10 ''A'' (request ''bind'' ''A'' ''B'' ''DGLAB'') paired =
       Normal (''A'', deliver 10 \<lparr>mtype = ''bind'', clientId = ''A'', targetId = ''B'',
                                   message = ''400''\<rparr> paired)
   \<and> binding_relations (snd (state_of (handle_message 10 ''A''
                                          (request ''bind'' ''A'' ''B'' ''DGLAB'') paired)))
       = [(''A'', ''B''), (''B'', ''A'')]"
proof -
  have h1: "sock_state (sockets paired 10) = Open"
    by (simp add: paired_fields)
  have h2: "map_of (client_connections paired) ''B'' \<noteq> None"
    by (simp add: paired_fields)
  have h3: "map_of (binding_relations paired) ''A'' \<noteq> None
            \<or> ''B'' \<in> snd ` set (binding_relations paired)"
    by (simp add: paired_fields)
  show ?thesis
    using h1 h2 h3 rebind_rejected [where client_id = "''A''" and m = "''DGLAB''", OF h1 h2 h3]
    by (simp add: paired_fields)
qed

subsection \<open>Other messages\<close>

text \<open>
  C7 as stated: a non-bind message gets \<open>error\<close>/404 if origin or target is unregistered and
  \<open>error\<close>/402 if the origin's recorded partner is not the claimed target. Line 57 adds a
  third test between the two: if both identifiers are registered but the sender's connection
  is neither of them, the answer is 404, whatever the binding map says. Here \<open>C\<close> sends a
  message in the name of \<open>A\<close> to \<open>B\<close>; both are registered and \<open>A\<close> is not bound to \<open>B\<close>.
\<close>

theorem third_party_gets_404:
  "map_of (client_connections three_clients) ''A'' = Some 10
   \<and> map_of (client_connections three_clients) ''B'' = Some 20
   \<and> map_of (binding_relations three_clients) ''A'' \<noteq> Some ''B''
   \<and> handle_message 30 ''C'' (request ''cmd'' ''A'' ''B'' ''x'') three_clients =
       Normal (''A'', deliver 30 \<lparr>mtype = ''error'', clientId = ''A'', targetId = ''B'',
                                   message = ''404''\<rparr> three_clients)"
  by (simp add: three_clients_fields request_def handle_message_def dispatch_def
        handle_forward_def validate_relation_def)

text \<open>
  C7, amended: for every non-bind message that fails validation, the sender (whose connection
  accepts the reply) receives one \<open>error\<close> message and nothing is sent to any other connection.
  Its code is 404 if the origin or the target is not registered, or if both are registered
  but the sender's connection is neither the origin's nor the target's; otherwise the origin's
  recorded partner is not the claimed target and the code is 402.
\<close>

theorem invalid_relation_rejected:
  assumes "ty \<noteq> ''bind''"
    and "sock_state (sockets w ws) = Open"
    and "map_of (client_connections w) c = None \<or> map_of (client_connections w) t = None
         \<or> (map_of (client_connections w) c \<noteq> Some ws
              \<and> map_of (client_connections w) t \<noteq> Some ws)
         \<or> map_of (binding_relations w) c \<noteq> Some t"
  shows "handle_message ws client_id (request ty c t m) w =
           Normal (c, deliver ws
             \<lparr>mtype = ''error'', clientId = c, targetId = t,
              message =
                (if map_of (client_connections w) c = None
                    \<or> map_of (client_connections w) t = None
                    \<or> (map_of (client_connections w) c \<noteq> Some ws
                         \<and> map_of (client_connections w) t \<noteq> Some ws)
                 then ''404'' else ''402'')\<rparr> w)"
  using assms
  by (auto simp add: request_def handle_message_def dispatch_def handle_forward_def
        validate_relation_def split: option.splits)

theorem invalid_relation_rejected_witness:
  "''cmd'' \<noteq> ''bind''
   \<and> sock_state (sockets two_clients 10) = Open
   \<and> map_of (binding_relations two_clients) ''A'' \<noteq> Some ''B''
   \<and> handle_message 10 ''A'' (request ''cmd'' ''A'' ''B'' ''x'') two_clients =
       Normal (''A'', deliver 10 \<lparr>mtype = ''error'', clientId = ''A'', targetId = ''B'',
                                   message = ''402''\<rparr> two_clients)"
proof -
  have h1: "''cmd'' \<noteq> ''bind''" by simp
  have h2: "sock_state (sockets two_clients 10) = Open"
    by (simp add: two_clients_fields)
  have h3: "map_of (binding_relations two_clients) ''A'' \<noteq> Some ''B''"
    by (simp add: two_clients_fields)
  have h3': "map_of (client_connections two_clients) ''A'' = None
         \<or> map_of (client_connections two_clients) ''B'' = None
         \<or> (map_of (client_connections two_clients) ''A'' \<noteq> Some 10
              \<and> map_of (client_connections two_clients) ''B'' \<noteq> Some 10)
         \<or> map_of (binding_relations two_clients) ''A'' \<noteq> Some ''B''"
    using h3 by simp
  show ?thesis
    using h1 h2 h3 invalid_relation_rejected [where client_id = "''A''" and m = "''x''", OF h1 h2 h3']
    by (simp add: two_clients_fields)
qed



subsection \<open>The binding map in every reachable state\<close>


lemma map_of_delete_if:
  "map_of (AList.delete k al) x = (if x = k then None else map_of al x)"
  by (simp add: delete_conv')



lemma ws_send_bindings [simp]:
  "binding_relations (state_of (ws_send ws m w)) = binding_relations w"
  by (simp add: ws_send_def deliver_def)





lemma on_exception_bindings:
  "binding_relations (state_of (on_exception ws d w)) = binding_relations w"
  by (simp add: on_exception_def)



lemma ws_close_fields [simp]:
  "client_connections (ws_close ws w) = client_connections w"
  "binding_relations (ws_close ws w) = binding_relations w"
  "client_timers (ws_close ws w) = client_timers w"
  "tasks (ws_close ws w) = tasks w"
  by (simp_all add: ws_close_def)



lemma cancel_timer_fields [simp]:
  "client_connections (cancel_timer c ch w) = client_connections w"
  "binding_relations (cancel_timer c ch w) = binding_relations w"
  "sockets (cancel_timer c ch w) = sockets w"
  by (simp_all add: cancel_timer_def Let_def split: option.splits)

lemma cancel_owned_fields [simp]:
  "client_connections (state_of (cancel_owned c keys w)) = client_connections w"
  "binding_relations (state_of (cancel_owned c keys w)) = binding_relations w"
  "sockets (state_of (cancel_owned c keys w)) = sockets w"
  by (induction keys arbitrary: w; simp split: list.splits)+


lemma heartbeat_each_bindings [simp]:
  "binding_relations (state_of (heartbeat_each l w)) = binding_relations w"
proof (induction l arbitrary: w)
  case Nil
  show ?case by simp
next
  case (Cons p l)
  obtain c ws where p: "p = (c, ws)" by (cases p)
  show ?case
    by (simp add: p Cons.IH ws_send_def split: outcome.splits)
qed

lemma send_heartbeat_bindings [simp]:
  "binding_relations (state_of (send_heartbeat w)) = binding_relations w"
  by (simp add: send_heartbeat_def)

lemma set_state_bindings [simp]: "binding_relations (set_state ws st w) = binding_relations w"
  by (simp add: set_state_def)

lemma accept_client_bindings [simp]:
  "binding_relations (state_of (accept_client c ws w)) = binding_relations w"
  by (simp add: accept_client_def)








subsection \<open>Disconnect cleanup\<close>

lemma split_not_Nil [simp]: "split s sep \<noteq> []"
  by (induction s) (simp_all split: list.splits)




lemma startswithD: "startswith s p \<Longrightarrow> \<exists>r. s = p @ r"
  by (induction s p rule: startswith.induct) auto

lemma split_after_sep: "\<exists>p0 ch ps. split (c @ sep # r) sep = p0 # ch # ps"
proof (induction c)
  case Nil
  obtain p ps where "split r sep = p # ps" by (cases "split r sep") simp_all
  then show ?case by simp
next
  case (Cons x c)
  then obtain p0 ch ps where "split (c @ sep # r) sep = p0 # ch # ps" by blast
  then show ?case by simp
qed

lemma split_of_owned_key:
  assumes "startswith key (c @ ''-'')"
  shows "\<exists>p0 ch ps. split key (CHR ''-'') = p0 # ch # ps"
proof -
  from startswithD [OF assms] obtain r where "key = c @ CHR ''-'' # r" by auto
  then show ?thesis using split_after_sep [of c "CHR ''-''" r] by simp
qed

lemma cancel_owned_Normal: "\<exists>w'. cancel_owned c keys w = Normal w'"
proof (induction keys arbitrary: w)
  case Nil
  show ?case by simp
next
  case (Cons key keys)
  show ?case
  proof (cases "startswith key (c @ ''-'')")
    case True
    from split_of_owned_key [OF True] obtain p0 ch ps
      where "split key (CHR ''-'') = p0 # ch # ps" by blast
    with True Cons.IH [of "cancel_timer c ch w"] show ?thesis by simp
  next
    case False
    with Cons.IH [of w] show ?thesis by simp
  qed
qed





lemma teardown_binding_fields [simp]:
  "client_connections (state_of (teardown_binding c w)) = client_connections w"
  "client_timers (state_of (teardown_binding c w)) = client_timers w"
  "tasks (state_of (teardown_binding c w)) = tasks w"
  by (simp_all add: teardown_binding_def ws_send_def Let_def split: option.splits)









text \<open>What step 2 does for the identifier it is given: a partner that is registered and open
  gets one \<open>break\<close>/209 and is closed.\<close>

lemma cleanup_notifies_partner:
  assumes "map_of (binding_relations w) c = Some t" and "t \<noteq> c"
    and "map_of (client_connections w) t = Some p"
    and "sock_state (sockets w p) = Open"
  shows "raised (cleanup c w) = None
       \<and> sent_to p (state_of (cleanup c w)) =
             sent_to p w @ [\<lparr>mtype = ''break'', clientId = c, targetId = t, message = ''209''\<rparr>]
       \<and> sock_state (sockets (state_of (cleanup c w)) p) = Closed"
proof -
  let ?w1 = "w\<lparr>client_connections := AList.delete c (client_connections w)\<rparr>"
  let ?m = "\<lparr>mtype = ''break'', clientId = c, targetId = t, message = ''209''\<rparr>"
  let ?w2 = "(ws_close p (deliver p ?m ?w1))\<lparr>binding_relations :=
               AList.delete t (AList.delete c (binding_relations w))\<rparr>"
  have td: "teardown_binding c ?w1 = Normal ?w2"
    using assms by (simp add: teardown_binding_def Let_def ws_open_def map_of_delete_if)
  then have cl: "cleanup c w = cancel_owned c (map fst (client_timers ?w2)) ?w2"
    by (simp add: cleanup_def Let_def)
  have so: "sockets (state_of (cleanup c w)) = sockets ?w2"
    by (simp only: cl cancel_owned_fields)
  from cancel_owned_Normal [of c "map fst (client_timers ?w2)" ?w2]
  have "raised (cleanup c w) = None" using cl by auto
  then show ?thesis
    by (simp add: so sent_to_def ws_close_def deliver_def)
qed

text \<open>
  C3. The claim: cleanup removes from the registry exactly the identifier the server assigned
  to the connection on accept, whatever \<open>clientId\<close> its messages carried. Line 142 assigns the
  \<open>clientId\<close> field of every well-formed message to the same local variable \<open>client_id\<close> that
  line 112 set to the assigned identifier and that the \<open>finally\<close> block reads. In the pairing
  protocol the second client \<open>B\<close> sends \<open>bind\<close> with \<open>clientId = A\<close>, \<open>targetId = B\<close>. When \<open>B\<close>
  then disconnects, cleanup deletes \<open>A\<close>: the registry still holds \<open>B\<close> with its closed
  connection, and \<open>A\<close>, whose handler is still running, is gone from it.
\<close>

theorem cleanup_unregisters_last_claimed_id:
  "client_connections (globals target_side_leaves) = [(''B'', 20)]
   \<and> handlers target_side_leaves = [(10, ''A'')]
   \<and> sock_state (sockets (globals target_side_leaves) 20) = Closed"
  by (simp add: target_side_leaves_def run_simps)

text \<open>
  C5. The claim: when a bound connection disconnects, its open partner receives exactly one
  \<open>break\<close>/209 and is closed, and afterwards neither identifier holds a binding. In the same
  run, \<open>B\<close> is bound to \<open>A\<close> and \<open>A\<close>'s connection is open when \<open>B\<close> disconnects. Cleanup runs
  for the identifier \<open>A\<close> (line 142 again), finds \<open>A\<close>'s partner \<open>B\<close> closed and notifies nobody:
  \<open>A\<close> has received nothing since the bind acknowledgement and its connection stays open.
  The binding entries are removed and \<open>A\<close> is dropped from the registry.
\<close>

theorem partner_of_target_side_not_notified:
  "map_of (binding_relations paired) ''B'' = Some ''A''
   \<and> sock_state (sockets paired 10) = Open
   \<and> sent_to 10 (globals target_side_leaves) = sent_to 10 paired
   \<and> sock_state (sockets (globals target_side_leaves) 10) = Open
   \<and> binding_relations (globals target_side_leaves) = []"
  by (simp add: target_side_leaves_def paired_def sent_to_def run_simps)

subsection \<open>Heartbeat\<close>

lemma heartbeat_msg_deliver [simp]: "heartbeat_msg c (deliver ws m w) = heartbeat_msg c w"
  by (simp add: heartbeat_msg_def)

lemma ws_open_deliver [simp]: "ws_open h (deliver ws m w) = ws_open h w"
  by (simp add: ws_open_def)






subsection \<open>Timed delivery\<close>

lemma sends_simps [simp]:
  "sends [] = []"
  "sends (Send m # acts) = m # sends acts"
  "sends (Sleep t # acts) = sends acts"
  "sends (xs @ ys) = sends xs @ sends ys"
  by (simp_all add: sends_def)

declare send_remaining.simps [simp del]

text \<open>While the target stays open for the next \<open>r\<close> looks and more than \<open>r\<close> sends remain, the
  loop sleeps and sends \<open>r\<close> times and goes on from there.\<close>

lemma send_remaining_open:
  assumes "\<forall>j. i \<le> j \<and> j < i + r \<longrightarrow> target_ws j = Open" and "int r \<le> n"
  shows "send_remaining target_ws d n ts i acts =
           send_remaining target_ws d (n - int r) ts (i + r)
             (acts @ concat (replicate r [Sleep ts, Send d]))"
  using assms
proof (induction r arbitrary: i n acts)
  case 0
  show ?case by simp
next
  case (Suc r)
  from Suc.prems have o: "target_ws i = Open" and pos: "0 < n" by auto
  have "send_remaining target_ws d n ts i acts =
          send_remaining target_ws d (n - 1) ts (Suc i) (acts @ [Sleep ts, Send d])"
    using o pos by (simp add: send_remaining.simps [of target_ws d n])
  also have "\<dots> = send_remaining target_ws d (n - 1 - int r) ts (Suc i + r)
                      ((acts @ [Sleep ts, Send d]) @ concat (replicate r [Sleep ts, Send d]))"
    using Suc.prems by (intro Suc.IH) auto
  finally show ?case by (simp add: algebra_simps)
qed

lemma send_remaining_done: "n \<le> 0 \<Longrightarrow> send_remaining target_ws d n ts i acts = (None, acts)"
  by (simp add: send_remaining.simps [of target_ws d n])

lemma send_remaining_closed:
  "0 < n \<Longrightarrow> target_ws i = Closed \<Longrightarrow>
   send_remaining target_ws d n ts i acts = (None, acts @ [Sleep ts])"
  by (simp add: send_remaining.simps [of target_ws d n])

text \<open>
  C6 as stated: a task started with \<open>totalSends = N\<close> and an always-open target performs exactly
  \<open>N\<close> sends. The first send (lines 88-89) happens before the count is looked at, so a task
  started with \<open>N = 0\<close> sends once.
\<close>

theorem zero_sends_requested_one_sent:
  "delay_send_msg ''A'' (\<lambda>i. Open) pulse 0 (1::nat) ''pulse'' [(''A-pulse'', 7)] =
     ((None, [Send pulse]), [])"
  by (simp add: delay_send_msg_def send_remaining_done)

text \<open>
  C6, amended: a task started with \<open>totalSends = N \<ge> 1\<close> whose target is open at its first \<open>k\<close>
  looks and, if \<open>k < N\<close>, closed from then on performs exactly \<open>k\<close> sends, the first at once
  and each later one after one sleep of the configured interval; it ends without an
  exception and its timer entry is removed. With \<open>k = N\<close> (the target stays open) that is \<open>N\<close>
  sends. A send happens only at a look that found the target open, the first included.
\<close>

theorem delay_send_msg_sends:
  assumes "1 \<le> n" and "int k \<le> n"
    and "\<forall>i<k. target_ws i = Open"
    and "\<forall>i\<ge>k. int i < n \<longrightarrow> target_ws i = Closed"
  shows "delay_send_msg client_id target_ws d n ts channel timers =
           ((None, expected_actions d ts n k), AList.delete (client_id @ ''-'' @ channel) timers)
       \<and> sends (expected_actions d ts n k :: 't action list) = replicate k d
       \<and> map_of (AList.delete (client_id @ ''-'' @ channel) timers) (client_id @ ''-'' @ channel) = None"
proof -
  have loop: "(case target_ws 0 of
                 Closed \<Rightarrow> send_remaining target_ws d (n - 1) ts 1 []
               | Broken \<Rightarrow> (Some ConnectionClosed, [])
               | Open \<Rightarrow> send_remaining target_ws d (n - 1) ts 1 [Send d])
              = (None, expected_actions d ts n k)"
  proof (cases k)
    case 0
    with assms have c0: "target_ws 0 = Closed" by simp
    show ?thesis
    proof (cases "1 < n")
      case True
      with assms 0 have "target_ws 1 = Closed" by simp
      with True c0 0 show ?thesis
        by (simp add: send_remaining_closed expected_actions_def)
    next
      case False
      with c0 0 show ?thesis
        by (simp add: send_remaining_done expected_actions_def)
    qed
  next
    case (Suc r)
    with assms have o0: "target_ws 0 = Open" by simp
    have op: "\<forall>j. 1 \<le> j \<and> j < 1 + r \<longrightarrow> target_ws j = Open"
      using assms(3) Suc by auto
    have le: "int r \<le> n - 1" using assms(2) Suc by simp
    have step: "send_remaining target_ws d (n - 1) ts 1 [Send d] =
            send_remaining target_ws d (n - 1 - int r) ts (1 + r)
              ([Send d] @ concat (replicate r [Sleep ts, Send d]))"
      by (rule send_remaining_open [OF op le])
    show ?thesis
    proof (cases "int k < n")
      case True
      with Suc have pos: "0 < n - 1 - int r" by simp
      from assms(4) True Suc have cl: "target_ws (1 + r) = Closed" by simp
      have "send_remaining target_ws d (n - 1 - int r) ts (1 + r)
              ([Send d] @ concat (replicate r [Sleep ts, Send d]))
            = (None, ([Send d] @ concat (replicate r [Sleep ts, Send d])) @ [Sleep ts])"
        using pos cl by (rule send_remaining_closed)
      with step o0 True Suc show ?thesis
        by (simp add: expected_actions_def)
    next
      case False
      with assms(2) Suc have "n - 1 - int r \<le> 0" by simp
      then have "send_remaining target_ws d (n - 1 - int r) ts (1 + r)
              ([Send d] @ concat (replicate r [Sleep ts, Send d]))
            = (None, [Send d] @ concat (replicate r [Sleep ts, Send d]))"
        by (rule send_remaining_done)
      with step o0 False Suc show ?thesis
        by (simp add: expected_actions_def)
    qed
  qed
  have cnt: "sends (expected_actions d ts n k :: 't action list) = replicate k d"
  proof -
    have r: "sends (concat (replicate m [Sleep ts, Send d]) :: 't action list) = replicate m d" for m
      by (induction m) simp_all
    show ?thesis
      by (cases k) (simp_all add: expected_actions_def r)
  qed
  show ?thesis
    using loop cnt by (simp add: delay_send_msg_def Let_def map_of_delete_if)
qed


theorem delay_send_msg_sends_witness:
  "delay_send_msg ''A'' (\<lambda>i. Open) pulse 3 (1::nat) ''pulse'' [(''A-pulse'', 7)] =
     ((None, [Send pulse, Sleep 1, Send pulse, Sleep 1, Send pulse]), [])
   \<and> delay_send_msg ''A'' (\<lambda>i. if i < 2 then Open else Closed) pulse 3 (1::nat) ''pulse''
         [(''A-pulse'', 7)] =
     ((None, [Send pulse, Sleep 1, Send pulse, Sleep 1]), [])"
proof -
  have a: "(1::int) \<le> 3" "int 3 \<le> 3" "\<forall>i<3. (\<lambda>i. Open) i = Open"
    "\<forall>i\<ge>3. int i < 3 \<longrightarrow> (\<lambda>i. Open) i = Closed"
    by simp_all
  have b: "(1::int) \<le> 3" "int 2 \<le> 3" "\<forall>i<2. (\<lambda>i. if i < 2 then Open else Closed) i = Open"
    "\<forall>i\<ge>2. int i < 3 \<longrightarrow> (\<lambda>i::nat. if i < 2 then Open else Closed) i = Closed"
    by simp_all
  have e3: "replicate 2 x = [x, x]" for x :: "'a list"
    by (simp add: numeral_2_eq_2)
  from delay_send_msg_sends [OF a, of "''A''" pulse "1::nat" "''pulse''" "[(''A-pulse'', 7)]"]
       delay_send_msg_sends [OF b, of "''A''" pulse "1::nat" "''pulse''" "[(''A-pulse'', 7)]"]
  show ?thesis
    by (simp add: expected_actions_def e3 numeral_2_eq_2)
qed

end
